theory Spec2Isabelle
  imports Complex_Main "HOL-Library.Sublist"
begin

section \<open>Strings\<close>

text \<open>
  A Python \<open>str\<close> is modelled as a \<^typ>\<open>string\<close> whose characters are the code points
  0..255 (Latin-1). On these code points \<open>str.lower()\<close> adds 32 to \<open>A..Z\<close> and to
  192..222 except 215 and leaves every other character alone; adding 32 there is setting
  bit 5 of the character.
\<close>

fun lower_char :: "char \<Rightarrow> char" where
  "lower_char (Char b0 b1 b2 b3 b4 b5 b6 b7) =
     (let n = (of_char (Char b0 b1 b2 b3 b4 b5 b6 b7) :: nat)
      in if (65 \<le> n \<and> n \<le> 90) \<or> (192 \<le> n \<and> n \<le> 222 \<and> n \<noteq> 215)
         then Char b0 b1 b2 b3 b4 True b6 b7
         else Char b0 b1 b2 b3 b4 b5 b6 b7)"

definition lower :: "string \<Rightarrow> string" where
  "lower s = map lower_char s"

text \<open>\<open>needle in text\<close> on Python strings: \<open>needle\<close> occurs as a contiguous substring.\<close>

fun str_in :: "string \<Rightarrow> string \<Rightarrow> bool" where
  "str_in needle [] = (needle = [])"
| "str_in needle (c # cs) = (prefix needle (c # cs) \<or> str_in needle cs)"

text \<open>\<open>any(n in text for n in needles)\<close>.\<close>

definition any_in :: "string list \<Rightarrow> string \<Rightarrow> bool" where
  "any_in needles text = list_ex (\<lambda>n. str_in n text) needles"

text \<open>\<open>sep.join(xs)\<close>.\<close>

fun join :: "string \<Rightarrow> string list \<Rightarrow> string" where
  "join sep [] = []"
| "join sep [x] = x"
| "join sep (x # y # ys) = x @ sep @ join sep (y # ys)"

text \<open>\<open>sum\<close> of a list of booleans, each counting 1 when true.\<close>

definition sum_bools :: "bool list \<Rightarrow> int" where
  "sum_bools bs = sum_list (map (\<lambda>b. if b then 1 else 0) bs)"

section \<open>Detail dictionaries\<close>

text \<open>
  Every detector returns a \<open>dict\<close> of details next to its verdict. The values stored are
  booleans, integers, strings and \<open>None\<close>; the dictionary is an association list in the
  order the source writes its keys.
\<close>

datatype dval = DBool bool | DInt int | DStr string | DNone

type_synonym dict = "(string \<times> dval) list"

text \<open>\<open>d.get(k, default)\<close>.\<close>

definition dict_get :: "dict \<Rightarrow> string \<Rightarrow> dval \<Rightarrow> dval" where
  "dict_get d k dflt = (case map_of d k of Some v \<Rightarrow> v | None \<Rightarrow> dflt)"

text \<open>Python truthiness of a stored value.\<close>

fun truthy :: "dval \<Rightarrow> bool" where
  "truthy (DBool b) = b"
| "truthy (DInt n) = (n \<noteq> 0)"
| "truthy (DStr s) = (s \<noteq> [])"
| "truthy DNone = False"

text \<open>
  The integer read back from a \<open>signal_count\<close> entry. The detectors only ever store an
  \<open>int\<close> under that key (a \<open>bool\<close> would count as 0 or 1 in Python); the remaining
  cases are never reached.
\<close>

fun dval_int :: "dval \<Rightarrow> int" where
  "dval_int (DInt n) = n"
| "dval_int (DBool b) = (if b then 1 else 0)"
| "dval_int (DStr s) = 0"
| "dval_int DNone = 0"

section \<open>Promotional detector (core/detectors/promotional.py)\<close>

definition incentive_verbs :: "string list" where
  "incentive_verbs =
     [''get $'', ''earn'', ''save $'', ''receive'', ''win'', ''claim'', ''redeem'']"

definition conditionals :: "string list" where
  "conditionals =
     [''when you'', ''if you'', ''after you'', ''you'' @ [CHR 0x27] @ ''ll'',
      ''we'' @ [CHR 0x27] @ ''ll'', ''you will'', ''you can'']"

definition promo_terms :: "string list" where
  "promo_terms =
     [''promo code'', ''promotional code'', ''offer code'', ''offer'', ''promotion'',
      ''deal'', ''bonus'', ''reward'', ''free'', ''gift'']"

definition urgency :: "string list" where
  "urgency =
     [''limited time'', ''expires'', ''ends'', ''by '', ''hurry'', ''act now'',
      ''don'' @ [CHR 0x27] @ ''t miss'', ''last chance'']"

definition ctas :: "string list" where
  "ctas =
     [''sign up'', ''enroll'', ''apply now'', ''join now'', ''visit'', ''call now'',
      ''click here'', ''register'']"

definition has_incentive_verb :: "string \<Rightarrow> bool" where
  "has_incentive_verb text = any_in incentive_verbs text"

definition has_conditional :: "string \<Rightarrow> bool" where
  "has_conditional text = any_in conditionals text"

definition has_promo_term :: "string \<Rightarrow> bool" where
  "has_promo_term text = any_in promo_terms text"

definition has_urgency :: "string \<Rightarrow> bool" where
  "has_urgency text = any_in urgency text"

definition has_cta :: "string \<Rightarrow> bool" where
  "has_cta text = any_in ctas text"

definition promo_signal_count :: "string \<Rightarrow> int" where
  "promo_signal_count text =
     sum_bools [has_incentive_verb text, has_conditional text, has_promo_term text,
                has_urgency text, has_cta text]"

definition is_promotional :: "string \<Rightarrow> bool \<times> dict" where
  "is_promotional text =
     (let signal_count = promo_signal_count text;
          is_promo = (signal_count \<ge> 2);
          details =
            [(''signal_count'', DInt signal_count),
             (''has_incentive_verb'', DBool (has_incentive_verb text)),
             (''has_conditional'', DBool (has_conditional text)),
             (''has_promo_term'', DBool (has_promo_term text)),
             (''has_urgency'', DBool (has_urgency text)),
             (''has_cta'', DBool (has_cta text))]
      in (is_promo, details))"

section \<open>Insurance-card detector (core/detectors/insurance.py)\<close>

definition anti_patterns :: "string list" where
  "anti_patterns =
     [''this is not an insurance card'', ''summary of benefits'',
      ''explanation of benefits'', ''eob'', ''claim statement'', ''billing statement'']"

definition card_indicators :: "string list" where
  "card_indicators =
     [''member id'', ''subscriber id'', ''policy number'', ''certificate number'']"

definition insurance_terms :: "string list" where
  "insurance_terms = [''copay'', ''rx bin'', ''rx grp'', ''deductible'', ''payer id'']"

definition network_terms :: "string list" where
  "network_terms = [''ppo'', ''hmo'', ''epo'', ''pos'']"

definition known_insurers :: "string list" where
  "known_insurers =
     [''blue cross'', ''blue shield'', ''premera'', ''regence'', ''aetna'', ''cigna'',
      ''kaiser'', ''vsp'', ''delta dental'']"

definition has_card_indicator :: "string \<Rightarrow> bool" where
  "has_card_indicator text = any_in card_indicators text"

definition has_insurance_term :: "string \<Rightarrow> bool" where
  "has_insurance_term text = any_in insurance_terms text"

definition has_network_term :: "string \<Rightarrow> bool" where
  "has_network_term text = any_in network_terms text"

definition has_known_insurer :: "string \<Rightarrow> bool" where
  "has_known_insurer text = any_in known_insurers text"

definition insurance_signal_count :: "string \<Rightarrow> int" where
  "insurance_signal_count text =
     sum_bools [has_card_indicator text, has_insurance_term text, has_network_term text,
                has_known_insurer text]"

definition has_rx_bin :: "string \<Rightarrow> bool" where
  "has_rx_bin text = (str_in ''rx bin'' text \<or> str_in ''rxbin'' text)"

definition is_insurance_card :: "string \<Rightarrow> string list \<Rightarrow> bool \<times> dict" where
  "is_insurance_card text field_keys =
     (if any_in anti_patterns text
      then (False, [(''rejected_reason'', DStr ''anti_pattern'')])
      else
        let signal_count = insurance_signal_count text;
            is_insurance = (signal_count \<ge> 2 \<or> has_rx_bin text);
            details =
              [(''signal_count'', DInt signal_count),
               (''has_card_indicator'', DBool (has_card_indicator text)),
               (''has_insurance_term'', DBool (has_insurance_term text)),
               (''has_network_term'', DBool (has_network_term text)),
               (''has_known_insurer'', DBool (has_known_insurer text)),
               (''has_rx_bin'', DBool (has_rx_bin text))]
        in (is_insurance, details))"

section \<open>Bill-statement detector (core/detectors/bill.py)\<close>

definition billing_terms :: "string list" where
  "billing_terms =
     [''billing statement'', ''statement of account'', ''billing period'',
      ''statement date'']"

definition payment_due :: "string list" where
  "payment_due =
     [''amount due'', ''total due'', ''balance due'', ''minimum payment'', ''please pay'']"

definition account_terms :: "string list" where
  "account_terms =
     [''account number'', ''previous balance'', ''current charges'', ''new balance'']"

definition service_terms :: "string list" where
  "service_terms =
     [''utility bill'', ''service period'', ''usage'', ''kwh'', ''therms'',
      ''medical bill'']"

definition invoice_terms :: "string list" where
  "invoice_terms = [''invoice number'', ''invoice date'']"

definition has_billing_term :: "string \<Rightarrow> bool" where
  "has_billing_term text = any_in billing_terms text"

definition has_payment_due :: "string \<Rightarrow> bool" where
  "has_payment_due text = any_in payment_due text"

definition has_account_term :: "string \<Rightarrow> bool" where
  "has_account_term text = any_in account_terms text"

definition has_service_term :: "string \<Rightarrow> bool" where
  "has_service_term text = any_in service_terms text"

definition has_invoice :: "string \<Rightarrow> bool" where
  "has_invoice text = any_in invoice_terms text"

text \<open>The \<open>if\<close>/\<open>elif\<close> chain that sets \<open>is_bill\<close> and \<open>matched_rule\<close>.\<close>

definition bill_rule :: "string \<Rightarrow> bool \<times> dval" where
  "bill_rule text =
     (if has_billing_term text then (True, DStr ''billing_term'')
      else if has_invoice text \<and> has_payment_due text then (True, DStr ''invoice_payment'')
      else if has_service_term text \<and> has_payment_due text
        then (True, DStr ''service_payment'')
      else if has_account_term text \<and> has_payment_due text
        then (True, DStr ''account_payment'')
      else (False, DNone))"

definition is_bill_statement :: "string \<Rightarrow> bool \<times> dict" where
  "is_bill_statement text =
     (let (is_bill, matched_rule) = bill_rule text;
          details =
            [(''has_billing_term'', DBool (has_billing_term text)),
             (''has_payment_due'', DBool (has_payment_due text)),
             (''has_account_term'', DBool (has_account_term text)),
             (''has_service_term'', DBool (has_service_term text)),
             (''has_invoice'', DBool (has_invoice text)),
             (''matched_rule'', matched_rule)]
      in (is_bill, details))"

section \<open>Letter detector (core/detectors/letter.py)\<close>

definition salutations :: "string list" where
  "salutations =
     [''dear '', ''to whom it may concern'', ''hello '', ''hi '', ''greetings'']"

definition closings :: "string list" where
  "closings =
     [''sincerely'', ''regards'', ''best regards'', ''best'', ''yours truly'',
      ''respectfully'', ''cordially'', ''warm regards'']"

definition has_salutation :: "string \<Rightarrow> bool" where
  "has_salutation text = any_in salutations text"

definition has_closing :: "string \<Rightarrow> bool" where
  "has_closing text = any_in closings text"

definition is_letter :: "string \<Rightarrow> bool \<Rightarrow> bool \<times> dict" where
  "is_letter text is_promo =
     (if is_promo then (False, [(''rejected_reason'', DStr ''promotional'')])
      else
        let is_letter_format = (has_salutation text \<and> has_closing text);
            details =
              [(''has_salutation'', DBool (has_salutation text)),
               (''has_closing'', DBool (has_closing text))]
        in (is_letter_format, details))"

section \<open>Regular expressions\<close>

text \<open>
  The patterns of the detectors and of the extraction service are values of \<open>rx\<close>, run
  by a matcher that follows the backtracking order of Python's \<open>re\<close>: at a position it
  returns every way the pattern can match, the preferred one first (the left branch of an
  alternative before the right one, a repetition taking as many rounds as it can before
  giving one back). The first element is the match Python reports.

  The character classes are those of \<open>re\<close> on \<open>str\<close> patterns, restricted to the code
  points 0..255.
\<close>

definition is_digit :: "char \<Rightarrow> bool" where
  "is_digit c = (let n = (of_char c :: nat) in 48 \<le> n \<and> n \<le> 57)"

definition is_space :: "char \<Rightarrow> bool" where
  "is_space c =
     (let n = (of_char c :: nat)
      in (9 \<le> n \<and> n \<le> 13) \<or> (28 \<le> n \<and> n \<le> 32) \<or> n = 133 \<or> n = 160)"

definition is_upper_ascii :: "char \<Rightarrow> bool" where
  "is_upper_ascii c = (let n = (of_char c :: nat) in 65 \<le> n \<and> n \<le> 90)"

definition is_lower_ascii :: "char \<Rightarrow> bool" where
  "is_lower_ascii c = (let n = (of_char c :: nat) in 97 \<le> n \<and> n \<le> 122)"

text \<open>\<open>\w\<close>: alphanumeric in the sense of \<open>str.isalnum\<close>, or the underscore.\<close>

definition is_word :: "char \<Rightarrow> bool" where
  "is_word c =
     (let n = (of_char c :: nat)
      in is_digit c \<or> is_upper_ascii c \<or> is_lower_ascii c \<or> n = 95
         \<or> n = 170 \<or> n = 178 \<or> n = 179 \<or> n = 181 \<or> n = 185 \<or> n = 186
         \<or> (188 \<le> n \<and> n \<le> 190) \<or> (192 \<le> n \<and> n \<le> 214)
         \<or> (216 \<le> n \<and> n \<le> 246) \<or> (248 \<le> n \<and> n \<le> 255))"

datatype rx =
    Chr "char \<Rightarrow> bool"
  | Eps
  | WordB
  | Seq rx rx
  | Alt rx rx
  | Star rx
  | Upto nat rx
  | Grp nat rx

record mstate =
  prev :: "char option"
  remaining :: string
  captured :: "(nat \<times> string) list"

text \<open>
  \<open>r{0,n}\<close>, greedy: one more round of \<open>r\<close> is tried before stopping here.
\<close>

primrec upto_iter :: "(mstate \<Rightarrow> mstate list) \<Rightarrow> nat \<Rightarrow> mstate \<Rightarrow> mstate list" where
  "upto_iter f 0 s = [s]"
| "upto_iter f (Suc n) s = concat (map (upto_iter f n) (f s)) @ [s]"

text \<open>
  \<open>r*\<close>, greedy. A round that consumes nothing ends the repetition, so the number of
  rounds is at most the number of characters left, which is what the counter is started at.
\<close>

primrec star_iter :: "(mstate \<Rightarrow> mstate list) \<Rightarrow> nat \<Rightarrow> mstate \<Rightarrow> mstate list" where
  "star_iter f 0 s = [s]"
| "star_iter f (Suc n) s =
     concat (map (star_iter f n)
       (filter (\<lambda>s'. length (remaining s') < length (remaining s)) (f s))) @ [s]"

definition at_word_boundary :: "char option \<Rightarrow> string \<Rightarrow> bool" where
  "at_word_boundary p s =
     ((case p of None \<Rightarrow> False | Some c \<Rightarrow> is_word c)
      \<noteq> (case s of [] \<Rightarrow> False | c # _ \<Rightarrow> is_word c))"

primrec rx_match :: "rx \<Rightarrow> mstate \<Rightarrow> mstate list" where
  "rx_match (Chr p) s =
     (case remaining s of
        [] \<Rightarrow> []
      | c # cs \<Rightarrow> if p c then [s\<lparr>prev := Some c, remaining := cs\<rparr>] else [])"
| "rx_match Eps s = [s]"
| "rx_match WordB s = (if at_word_boundary (prev s) (remaining s) then [s] else [])"
| "rx_match (Seq a b) s = concat (map (rx_match b) (rx_match a s))"
| "rx_match (Alt a b) s = rx_match a s @ rx_match b s"
| "rx_match (Star a) s = star_iter (rx_match a) (length (remaining s)) s"
| "rx_match (Upto n a) s = upto_iter (rx_match a) n s"
| "rx_match (Grp i a) s =
     map (\<lambda>s'. s'\<lparr>captured :=
                  (i, take (length (remaining s) - length (remaining s')) (remaining s))
                  # captured s'\<rparr>)
         (rx_match a s)"

text \<open>Pattern syntax on top of the constructors.\<close>

definition lit :: "string \<Rightarrow> rx" where
  "lit w = foldr (\<lambda>c r. Seq (Chr (\<lambda>x. x = c)) r) w Eps"

text \<open>
  A literal under \<open>re.IGNORECASE\<close>; the literals of the source's patterns are lower-case
  ASCII letters and punctuation, which match exactly the characters that lower-case to them.
\<close>

definition lit_ic :: "string \<Rightarrow> rx" where
  "lit_ic w = foldr (\<lambda>c r. Seq (Chr (\<lambda>x. lower_char x = c)) r) w Eps"

fun seqs :: "rx list \<Rightarrow> rx" where
  "seqs [] = Eps"
| "seqs [r] = r"
| "seqs (r # rs) = Seq r (seqs rs)"

definition opt :: "rx \<Rightarrow> rx" where
  "opt r = Upto 1 r"

definition plus :: "rx \<Rightarrow> rx" where
  "plus r = Seq r (Star r)"

text \<open>\<open>r{m}\<close> and \<open>r{m,n}\<close>.\<close>

definition times :: "nat \<Rightarrow> rx \<Rightarrow> rx" where
  "times m r = seqs (replicate m r)"

definition between :: "nat \<Rightarrow> nat \<Rightarrow> rx \<Rightarrow> rx" where
  "between m n r = Seq (times m r) (Upto (n - m) r)"

text \<open>
  A match object: the text matched (\<open>group(0)\<close>) and the numbered groups, the most
  recent capture of a group first.
\<close>

record rmatch =
  whole :: string
  grps :: "(nat \<times> string) list"

definition match_at :: "rx \<Rightarrow> char option \<Rightarrow> string \<Rightarrow> rmatch option" where
  "match_at r p s =
     (case rx_match r \<lparr>prev = p, remaining = s, captured = []\<rparr> of
        [] \<Rightarrow> None
      | m # _ \<Rightarrow>
          Some \<lparr>whole = take (length s - length (remaining m)) s, grps = captured m\<rparr>)"

text \<open>\<open>m.group(i)\<close> for a group that took part in the match.\<close>

definition group :: "rmatch \<Rightarrow> nat \<Rightarrow> string" where
  "group m i = (case map_of (grps m) i of Some g \<Rightarrow> g | None \<Rightarrow> [])"

text \<open>\<open>re.search\<close>: the match at the leftmost position that has one.\<close>

fun search_from :: "rx \<Rightarrow> char option \<Rightarrow> string \<Rightarrow> rmatch option" where
  "search_from r p [] = match_at r p []"
| "search_from r p (c # cs) =
     (case match_at r p (c # cs) of
        Some m \<Rightarrow> Some m
      | None \<Rightarrow> search_from r (Some c) cs)"

definition re_search :: "rx \<Rightarrow> string \<Rightarrow> rmatch option" where
  "re_search r text = search_from r None text"

text \<open>
  \<open>re.finditer\<close>: the non-overlapping matches from left to right. After a match the
  scan resumes where the match ended: \<open>skip\<close> counts the characters of the last match
  still to be passed. (None of the source's patterns can match the empty string; after
  an empty match the scan here moves on by one character.)
\<close>

fun finditer_from :: "rx \<Rightarrow> nat \<Rightarrow> char option \<Rightarrow> string \<Rightarrow> rmatch list" where
  "finditer_from r skip p [] =
     (if skip = 0 then (case match_at r p [] of Some m \<Rightarrow> [m] | None \<Rightarrow> []) else [])"
| "finditer_from r skip p (c # cs) =
     (if skip > 0 then finditer_from r (skip - 1) (Some c) cs
      else case match_at r p (c # cs) of
             None \<Rightarrow> finditer_from r 0 (Some c) cs
           | Some m \<Rightarrow> m # finditer_from r (length (whole m) - 1) (Some c) cs)"

definition re_finditer :: "rx \<Rightarrow> string \<Rightarrow> rmatch list" where
  "re_finditer r text = finditer_from r 0 None text"

text \<open>\<open>re.findall\<close> for a pattern without capturing groups: the matched texts.\<close>

definition re_findall :: "rx \<Rightarrow> string \<Rightarrow> string list" where
  "re_findall r text = map whole (re_finditer r text)"

text \<open>Character classes shared by the patterns below.\<close>

definition chr :: "char \<Rightarrow> rx" where
  "chr c = Chr (\<lambda>x. x = c)"

definition digit :: rx where
  "digit = Chr is_digit"

definition space :: rx where
  "space = Chr is_space"

definition in_range :: "char \<Rightarrow> char \<Rightarrow> char \<Rightarrow> bool" where
  "in_range lo hi c = ((of_char lo :: nat) \<le> of_char c \<and> (of_char c :: nat) \<le> of_char hi)"

definition is_alpha_ascii :: "char \<Rightarrow> bool" where
  "is_alpha_ascii c = (is_upper_ascii c \<or> is_lower_ascii c)"

section \<open>Credit-card detector (core/detectors/credit\_card.py)\<close>

definition digit_value :: "char \<Rightarrow> int" where
  "digit_value c = int (of_char c) - 48"

text \<open>One round of the Luhn loop: \<open>total\<close> after the digit at index \<open>i\<close>.\<close>

definition luhn_step :: "nat \<times> char \<Rightarrow> int \<Rightarrow> int" where
  "luhn_step = (\<lambda>(i, d) total.
     let n = digit_value d;
         n = (if i mod 2 = 1
              then (let n2 = n * 2 in if n2 > 9 then n2 - 9 else n2)
              else n)
     in total + n)"

definition luhn_check :: "string \<Rightarrow> bool" where
  "luhn_check card_number =
     (let digits = filter is_digit card_number
      in if digits = [] \<or> length digits < 13 \<or> length digits > 19 then False
         else
           let reverse_digits = rev digits;
               total = fold luhn_step (enumerate 0 reverse_digits) 0
           in total mod 10 = 0)"

text \<open>\<open>[\s\-]\<close>\<close>

definition card_sep :: rx where
  "card_sep = Chr (\<lambda>c. is_space c \<or> c = CHR ''-'')"

text \<open>\<open>\b\d{4}[\s\-]?\d{4}[\s\-]?\d{4}[\s\-]?\d{3,7}\b\<close>\<close>

definition card_pattern :: rx where
  "card_pattern =
     seqs [WordB, times 4 digit, opt card_sep, times 4 digit, opt card_sep,
           times 4 digit, opt card_sep, between 3 7 digit, WordB]"

text \<open>\<open>\b\d{13,19}\b\<close>\<close>

definition card_pattern2 :: rx where
  "card_pattern2 = seqs [WordB, between 13 19 digit, WordB]"

definition extract_card_numbers :: "string \<Rightarrow> string list" where
  "extract_card_numbers text = re_findall card_pattern text @ re_findall card_pattern2 text"

definition non_payment_card_terms :: "string list" where
  "non_payment_card_terms =
     [''gift card'', ''member card'', ''membership card'', ''loyalty card'']"

definition issuer_names :: "string list" where
  "issuer_names =
     [''visa'', ''mastercard'', ''amex'', ''american express'', ''discover'', ''maestro'',
      ''jcb'']"

definition card_type_keywords :: "string list" where
  "card_type_keywords = [''credit card'', ''debit card'', ''valid thru'', ''expires'']"

text \<open>\<open>\b(0[1-9]|1[0-2])/(\d{2}|\d{4})\b\<close>\<close>

definition expiry_pattern :: rx where
  "expiry_pattern =
     seqs [WordB,
           Grp 1 (Alt (Seq (chr CHR ''0'') (Chr (in_range CHR ''1'' CHR ''9'')))
                      (Seq (chr CHR ''1'') (Chr (in_range CHR ''0'' CHR ''2'')))),
           chr CHR ''/'',
           Grp 2 (Alt (times 2 digit) (times 4 digit)),
           WordB]"

definition is_non_payment_card :: "string \<Rightarrow> bool" where
  "is_non_payment_card text = any_in non_payment_card_terms text"

definition has_issuer_name :: "string \<Rightarrow> bool" where
  "has_issuer_name text = any_in issuer_names text"

text \<open>The loop over the candidates stops at the first one that passes the checksum.\<close>

definition has_valid_pan :: "string \<Rightarrow> bool" where
  "has_valid_pan text = list_ex luhn_check (extract_card_numbers text)"

definition has_expiry :: "string \<Rightarrow> bool" where
  "has_expiry text = (re_search expiry_pattern text \<noteq> None)"

definition has_card_field :: "string list \<Rightarrow> bool" where
  "has_card_field field_keys =
     list_ex (\<lambda>key. (str_in ''card'' key \<and> (str_in ''number'' key \<or> str_in ''pan'' key))
                     \<or> str_in ''credit'' key \<or> str_in ''debit'' key) field_keys"

definition has_card_keyword :: "string \<Rightarrow> bool" where
  "has_card_keyword text = any_in card_type_keywords text"

definition has_strong_context :: "string \<Rightarrow> string list \<Rightarrow> bool" where
  "has_strong_context text field_keys =
     (has_issuer_name text \<or> has_expiry text \<or> has_card_field field_keys
      \<or> has_card_keyword text)"

definition is_credit_card :: "string \<Rightarrow> string list \<Rightarrow> string list \<Rightarrow> bool \<times> dict" where
  "is_credit_card text field_values field_keys =
     (if is_non_payment_card text \<and> \<not> has_issuer_name text
      then (False, [(''rejected_reason'', DStr ''non_payment_card'')])
      else
        let is_card = (has_valid_pan text \<and> has_strong_context text field_keys);
            details =
              [(''has_valid_pan'', DBool (has_valid_pan text)),
               (''has_issuer_name'', DBool (has_issuer_name text)),
               (''has_expiry'', DBool (has_expiry text)),
               (''has_card_field'', DBool (has_card_field field_keys)),
               (''has_card_keyword'', DBool (has_card_keyword text)),
               (''is_non_payment_card'', DBool (is_non_payment_card text))]
        in (is_card, details))"

section \<open>Receipt detector (core/detectors/receipt.py)\<close>

text \<open>\<open>\$\s*\d+(?:\.\d{2})?\<close>\<close>

definition count_pattern :: rx where
  "count_pattern =
     seqs [chr CHR ''$'', Star space, plus digit, opt (Seq (chr CHR ''.'') (times 2 digit))]"

definition count_amounts :: "string \<Rightarrow> int" where
  "count_amounts text = int (length (re_findall count_pattern text))"

definition transaction_patterns :: "string list" where
  "transaction_patterns =
     [''receipt #'', ''receipt number'', ''transaction #'', ''order #'', ''order number'',
      ''confirmation #'']"

definition card_types :: "string list" where
  "card_types = [''visa'', ''mastercard'', ''amex'', ''discover'']"

definition payment_indicators :: "string list" where
  "payment_indicators = [''auth code'', ''approval'', ''paid with'']"

definition cash_indicators :: "string list" where
  "cash_indicators = [''cash'', ''change:'', ''tendered'', ''amount paid'']"

definition merchant_indicators :: "string list" where
  "merchant_indicators = [''store #'', ''cashier'', ''terminal'', ''server:'', ''table:'']"

definition receipt_keywords :: "string list" where
  "receipt_keywords = [''receipt'', ''thank you for shopping'']"

definition payment_complete_words :: "string list" where
  "payment_complete_words = [''tendered'', ''change:'', ''change due'']"

definition has_transaction_id :: "string \<Rightarrow> bool" where
  "has_transaction_id text = any_in transaction_patterns text"

definition has_card_payment :: "string \<Rightarrow> bool" where
  "has_card_payment text = (any_in card_types text \<or> any_in payment_indicators text)"

definition has_cash_payment :: "string \<Rightarrow> bool" where
  "has_cash_payment text = any_in cash_indicators text"

definition has_payment_method :: "string \<Rightarrow> bool" where
  "has_payment_method text = (has_card_payment text \<or> has_cash_payment text)"

definition has_merchant_context :: "string \<Rightarrow> bool" where
  "has_merchant_context text = any_in merchant_indicators text"

definition has_receipt_word :: "string \<Rightarrow> bool" where
  "has_receipt_word text = any_in receipt_keywords text"

definition has_payment_complete :: "string \<Rightarrow> bool" where
  "has_payment_complete text = any_in payment_complete_words text"

definition has_multiple_amounts :: "string \<Rightarrow> bool" where
  "has_multiple_amounts text = (count_amounts text \<ge> 3)"

definition is_receipt :: "string \<Rightarrow> string list \<Rightarrow> bool \<Rightarrow> bool \<times> dict" where
  "is_receipt text field_keys is_promo =
     (if is_promo then (False, [(''rejected_reason'', DStr ''promotional'')])
      else if has_transaction_id text \<and> has_payment_method text
        then (True, [(''rule'', DStr ''strong_transaction''),
                     (''has_transaction_id'', DBool True),
                     (''has_payment_method'', DBool True)])
      else if has_merchant_context text \<and> has_payment_method text
        then (True, [(''rule'', DStr ''merchant_payment''),
                     (''has_merchant_context'', DBool True),
                     (''has_payment_method'', DBool True)])
      else if has_receipt_word text \<and> has_payment_complete text \<and> has_multiple_amounts text
        then (True, [(''rule'', DStr ''weak_combined''),
                     (''has_receipt_word'', DBool True),
                     (''has_payment_complete'', DBool True),
                     (''amount_count'', DInt (count_amounts text))])
      else (False, [(''has_transaction_id'', DBool (has_transaction_id text)),
                    (''has_payment_method'', DBool (has_payment_method text)),
                    (''has_merchant_context'', DBool (has_merchant_context text))]))"

section \<open>Data model (models/document.py, models/responses.py)\<close>

datatype DocumentType =
  RECEIPT | PROMOTIONAL | BILL_STATEMENT | CREDIT_CARD | INSURANCE_CARD | LETTER | GENERIC

text \<open>
  \<open>FieldModel\<close>; its \<open>value\<close> attribute is \<open>fvalue\<close> here. A confidence is a Python
  float, modelled as a real number.
\<close>

record FieldModel =
  key :: string
  fvalue :: string
  confidence :: real
  source :: string

record ClassificationSignals =
  promotional :: bool
  receipt :: bool
  bill :: bool
  insurance_card :: bool
  credit_card :: bool
  letter :: bool
  details :: "(string \<times> dict) list"

section \<open>Classification service (services/classification\_service.py)\<close>

definition calculate_confidence :: "int \<Rightarrow> int \<Rightarrow> real" where
  "calculate_confidence signal_count max_signals =
     (if signal_count \<ge> max_signals then 0.95
      else if signal_count \<ge> max_signals - 1 then 0.85
      else if signal_count \<ge> 2 then 0.75
      else 0.60)"

text \<open>\<open>fields or []\<close>, for the optional parameter \<open>fields\<close>.\<close>

definition fields_or_empty :: "FieldModel list option \<Rightarrow> FieldModel list" where
  "fields_or_empty field_list = (case field_list of None \<Rightarrow> [] | Some fs \<Rightarrow> fs)"

definition field_keys_of :: "FieldModel list option \<Rightarrow> string list" where
  "field_keys_of field_list = map (\<lambda>f. lower (key f)) (fields_or_empty field_list)"

definition field_values_of :: "FieldModel list option \<Rightarrow> string list" where
  "field_values_of field_list = map (\<lambda>f. lower (fvalue f)) (fields_or_empty field_list)"

text \<open>
  The search surface: the lower-cased text, a space, and the lower-cased field values
  joined by spaces, lower-cased once more.
\<close>

definition haystack :: "string \<Rightarrow> FieldModel list option \<Rightarrow> string" where
  "haystack ocr_text field_list =
     (let text = lower ocr_text
      in lower (text @ '' '' @ join '' '' (field_values_of field_list)))"

text \<open>
  \<open>ClassificationService.classify\<close>. The \<open>hint\<close> is a parameter of the source; the
  source reads it only to write a log line.
\<close>

definition classify ::
  "string \<Rightarrow> FieldModel list option \<Rightarrow> DocumentType option \<Rightarrow> DocumentType
   \<Rightarrow> DocumentType \<times> real \<times> ClassificationSignals" where
  "classify ocr_text field_list hint default_type =
     (let field_keys = field_keys_of field_list;
          field_values = field_values_of field_list;
          hay = haystack ocr_text field_list;
          (promotional_hit, promo_details) = is_promotional hay;
          (insurance_hit, insurance_details) = is_insurance_card hay field_keys;
          (credit_hit, credit_details) = is_credit_card hay field_values field_keys;
          (receipt_hit, receipt_details) = is_receipt hay field_keys promotional_hit;
          (bill_hit, bill_details) = is_bill_statement hay;
          (letter_hit, letter_details) = is_letter hay promotional_hit;
          signals =
            \<lparr>promotional = promotional_hit, receipt = receipt_hit, bill = bill_hit,
             insurance_card = insurance_hit, credit_card = credit_hit, letter = letter_hit,
             details =
               [(''promotional'', promo_details), (''receipt'', receipt_details),
                (''insurance_card'', insurance_details), (''credit_card'', credit_details),
                (''bill'', bill_details), (''letter'', letter_details)]\<rparr>;
          (result, conf) =
            (if promotional_hit
             then (PROMOTIONAL,
                   calculate_confidence
                     (dval_int (dict_get promo_details ''signal_count'' (DInt 0))) 5)
             else if insurance_hit
             then (INSURANCE_CARD,
                   if truthy (dict_get insurance_details ''has_rx_bin'' DNone) then 0.95
                   else calculate_confidence
                          (dval_int (dict_get insurance_details ''signal_count'' (DInt 0))) 4)
             else if credit_hit
             then (CREDIT_CARD,
                   if truthy (dict_get credit_details ''has_issuer_name'' DNone)
                   then 0.9 else 0.75)
             else if receipt_hit
             then (RECEIPT,
                   let rule = dict_get receipt_details ''rule'' (DStr [])
                   in if rule = DStr ''strong_transaction'' then 0.95
                      else if rule = DStr ''merchant_payment'' then 0.85
                      else 0.70)
             else if bill_hit
             then (BILL_STATEMENT,
                   if truthy (dict_get bill_details ''has_billing_term'' DNone)
                   then 0.9 else 0.75)
             else if letter_hit then (LETTER, 0.80)
             else (default_type, 0.3))
      in (result, conf, signals))"

section \<open>Extraction service (services/extraction\_service.py)\<close>

subsection \<open>Stage 1: generic patterns\<close>

definition pattern_field :: "string \<Rightarrow> string \<Rightarrow> real \<Rightarrow> FieldModel" where
  "pattern_field k v c = \<lparr>key = k, fvalue = v, confidence = c, source = ''pattern''\<rparr>"

text \<open>\<open>\$\s*(\d+(?:\.\d{2})?)\<close>\<close>

definition amount_pattern :: rx where
  "amount_pattern =
     seqs [chr CHR ''$'', Star space,
           Grp 1 (Seq (plus digit) (opt (Seq (chr CHR ''.'') (times 2 digit))))]"

text \<open>\<open>\b(\d{1,2}[/-]\d{1,2}[/-]\d{2,4})\b\<close>\<close>

definition date_sep :: rx where
  "date_sep = Chr (\<lambda>c. c = CHR ''/'' \<or> c = CHR ''-'')"

definition date_pattern :: rx where
  "date_pattern =
     seqs [WordB,
           Grp 1 (seqs [between 1 2 digit, date_sep, between 1 2 digit, date_sep,
                        between 2 4 digit]),
           WordB]"

text \<open>\<open>\b[A-Za-z0-9._%+-]+@[A-Za-z0-9.-]+\.[A-Z|a-z]{2,}\b\<close>\<close>

definition email_local :: rx where
  "email_local = Chr (\<lambda>c. is_alpha_ascii c \<or> is_digit c \<or> c \<in> set ''._%+-'')"

definition email_domain :: rx where
  "email_domain = Chr (\<lambda>c. is_alpha_ascii c \<or> is_digit c \<or> c \<in> set ''.-'')"

definition email_tld :: rx where
  "email_tld = Chr (\<lambda>c. is_alpha_ascii c \<or> c = CHR ''|'')"

definition email_pattern :: rx where
  "email_pattern =
     seqs [WordB, plus email_local, chr CHR ''@'', plus email_domain, chr CHR ''.'',
           times 2 email_tld, Star email_tld, WordB]"

text \<open>\<open>\b(\d{3}[-.\s]?\d{3}[-.\s]?\d{4}|\(\d{3}\)\s*\d{3}[-.\s]?\d{4})\b\<close>\<close>

definition phone_sep :: rx where
  "phone_sep = Chr (\<lambda>c. c = CHR ''-'' \<or> c = CHR ''.'' \<or> is_space c)"

definition phone_pattern :: rx where
  "phone_pattern =
     seqs [WordB,
           Grp 1 (Alt (seqs [times 3 digit, opt phone_sep, times 3 digit, opt phone_sep,
                             times 4 digit])
                      (seqs [chr CHR ''('', times 3 digit, chr CHR '')'', Star space,
                             times 3 digit, opt phone_sep, times 4 digit])),
           WordB]"

definition extract_pattern_fields :: "string \<Rightarrow> FieldModel list" where
  "extract_pattern_fields text =
     map (\<lambda>m. pattern_field ''amount'' (''$'' @ group m 1) 0.85)
         (re_finditer amount_pattern text)
     @ map (\<lambda>m. pattern_field ''date'' (group m 1) 0.90) (re_finditer date_pattern text)
     @ map (\<lambda>m. pattern_field ''email'' (whole m) 0.95) (re_finditer email_pattern text)
     @ map (\<lambda>m. pattern_field ''phone'' (whole m) 0.85) (re_finditer phone_pattern text)"

subsection \<open>Stage 2: refinement by document type\<close>

text \<open>One round of the loop over the fields: what is appended to \<open>refined\<close>.\<close>

definition refine_step :: "DocumentType \<Rightarrow> FieldModel \<Rightarrow> FieldModel list \<Rightarrow> FieldModel list" where
  "refine_step document_type fld refined =
     (if document_type = PROMOTIONAL then
        (if key fld = ''amount''
         then refined @ [\<lparr>key = ''offer_amount'', fvalue = fvalue fld,
                          confidence = confidence fld * 0.9, source = source fld\<rparr>]
         else refined @ [fld])
      else if document_type = RECEIPT then refined @ [fld]
      else if document_type = BILL_STATEMENT then
        (if key fld = ''amount''
         then refined @ [\<lparr>key = ''amount_due'', fvalue = fvalue fld,
                          confidence = confidence fld * 0.9, source = source fld\<rparr>]
         else refined @ [fld])
      else refined @ [fld])"

definition refine_fields_by_type ::
  "FieldModel list \<Rightarrow> DocumentType \<Rightarrow> string \<Rightarrow> FieldModel list" where
  "refine_fields_by_type field_list document_type text =
     fold (refine_step document_type) field_list []"

subsection \<open>Stage 3: type-specific fields\<close>

text \<open>
  The loop \<open>for pattern in patterns: match = re.search(...); if match: ...; break\<close>:
  the match of the first pattern of the list that matches anywhere in the text.
\<close>

fun first_search :: "rx list \<Rightarrow> string \<Rightarrow> rmatch option" where
  "first_search [] text = None"
| "first_search (p # ps) text =
     (case re_search p text of Some m \<Rightarrow> Some m | None \<Rightarrow> first_search ps text)"

text \<open>
  The patterns below are compiled with \<open>re.IGNORECASE\<close>: \<open>[A-Z0-9]\<close> and
  \<open>[A-Z0-9-]\<close> then also match the lower-case letters.
\<close>

definition alnum_ic :: rx where
  "alnum_ic = Chr (\<lambda>c. is_alpha_ascii c \<or> is_digit c)"

definition ident_ic :: rx where
  "ident_ic = Chr (\<lambda>c. is_alpha_ascii c \<or> is_digit c \<or> c = CHR ''-'')"

definition alpha :: rx where
  "alpha = Chr is_alpha_ascii"

text \<open>
  \<open>promo\s*code:?\s*([A-Z0-9]+)\<close>, \<open>use\s*code:?\s*([A-Z0-9]+)\<close>,
  \<open>code:?\s*([A-Z0-9]{4,})\<close>
\<close>

definition promo_patterns :: "rx list" where
  "promo_patterns =
     [seqs [lit_ic ''promo'', Star space, lit_ic ''code'', opt (chr CHR '':''), Star space,
            Grp 1 (plus alnum_ic)],
      seqs [lit_ic ''use'', Star space, lit_ic ''code'', opt (chr CHR '':''), Star space,
            Grp 1 (plus alnum_ic)],
      seqs [lit_ic ''code'', opt (chr CHR '':''), Star space,
            Grp 1 (Seq (times 4 alnum_ic) (Star alnum_ic))]]"

text \<open>\<open>[A-Za-z]+\s+\d{1,2},?\s+\d{4}\<close> and \<open>\d{1,2}/\d{1,2}/\d{4}\<close>\<close>

definition long_date :: rx where
  "long_date =
     seqs [plus alpha, plus space, between 1 2 digit, opt (chr CHR '',''), plus space,
           times 4 digit]"

definition slash_date :: rx where
  "slash_date =
     seqs [between 1 2 digit, chr CHR ''/'', between 1 2 digit, chr CHR ''/'',
           times 4 digit]"

text \<open>
  \<open>expires?:?\s*([A-Za-z]+\s+\d{1,2},?\s+\d{4})\<close>,
  \<open>ends?:?\s*([A-Za-z]+\s+\d{1,2},?\s+\d{4})\<close>, \<open>by\s+(\d{1,2}/\d{1,2}/\d{4})\<close>
\<close>

definition expiry_patterns :: "rx list" where
  "expiry_patterns =
     [seqs [lit_ic ''expire'', opt (lit_ic ''s''), opt (chr CHR '':''), Star space,
            Grp 1 long_date],
      seqs [lit_ic ''end'', opt (lit_ic ''s''), opt (chr CHR '':''), Star space,
            Grp 1 long_date],
      seqs [lit_ic ''by'', plus space, Grp 1 slash_date]]"

definition extract_promotional_fields :: "string \<Rightarrow> FieldModel list" where
  "extract_promotional_fields text =
     (case first_search promo_patterns text of
        Some m \<Rightarrow> [pattern_field ''promo_code'' (group m 1) 0.95]
      | None \<Rightarrow> [])
     @ (case first_search expiry_patterns text of
          Some m \<Rightarrow> [pattern_field ''offer_expiry'' (group m 1) 0.90]
        | None \<Rightarrow> [])"

text \<open>
  \<open>receipt\s*#:?\s*([A-Z0-9-]+)\<close>, \<open>transaction\s*#:?\s*([A-Z0-9-]+)\<close>,
  \<open>order\s*#:?\s*([A-Z0-9-]+)\<close>
\<close>

definition receipt_patterns :: "rx list" where
  "receipt_patterns =
     [seqs [lit_ic ''receipt'', Star space, chr CHR ''#'', opt (chr CHR '':''), Star space,
            Grp 1 (plus ident_ic)],
      seqs [lit_ic ''transaction'', Star space, chr CHR ''#'', opt (chr CHR '':''),
            Star space, Grp 1 (plus ident_ic)],
      seqs [lit_ic ''order'', Star space, chr CHR ''#'', opt (chr CHR '':''), Star space,
            Grp 1 (plus ident_ic)]]"

text \<open>\<open>total:?\s*\$\s*(\d+\.\d{2})\<close>\<close>

definition total_pattern :: rx where
  "total_pattern =
     seqs [lit_ic ''total'', opt (chr CHR '':''), Star space, chr CHR ''$'', Star space,
           Grp 1 (seqs [plus digit, chr CHR ''.'', times 2 digit])]"

definition extract_receipt_fields :: "string \<Rightarrow> FieldModel list" where
  "extract_receipt_fields text =
     (case first_search receipt_patterns text of
        Some m \<Rightarrow> [pattern_field ''transaction_id'' (group m 1) 0.95]
      | None \<Rightarrow> [])
     @ (case re_search total_pattern text of
          Some m \<Rightarrow> [pattern_field ''total_amount'' (''$'' @ group m 1) 0.95]
        | None \<Rightarrow> [])"

text \<open>
  \<open>due\s*date:?\s*(\d{1,2}/\d{1,2}/\d{4})\<close>,
  \<open>payment\s*due:?\s*(\d{1,2}/\d{1,2}/\d{4})\<close>
\<close>

definition due_date_patterns :: "rx list" where
  "due_date_patterns =
     [seqs [lit_ic ''due'', Star space, lit_ic ''date'', opt (chr CHR '':''), Star space,
            Grp 1 slash_date],
      seqs [lit_ic ''payment'', Star space, lit_ic ''due'', opt (chr CHR '':''), Star space,
            Grp 1 slash_date]]"

text \<open>\<open>account\s*#?:?\s*([A-Z0-9-]+)\<close>\<close>

definition account_pattern :: rx where
  "account_pattern =
     seqs [lit_ic ''account'', Star space, opt (chr CHR ''#''), opt (chr CHR '':''),
           Star space, Grp 1 (plus ident_ic)]"

definition extract_bill_fields :: "string \<Rightarrow> FieldModel list" where
  "extract_bill_fields text =
     (case first_search due_date_patterns text of
        Some m \<Rightarrow> [pattern_field ''due_date'' (group m 1) 0.95]
      | None \<Rightarrow> [])
     @ (case re_search account_pattern text of
          Some m \<Rightarrow> [pattern_field ''account_number'' (group m 1) 0.90]
        | None \<Rightarrow> [])"

subsection \<open>\<open>ExtractionService.extract_fields\<close>\<close>

definition extract_fields :: "string \<Rightarrow> DocumentType \<Rightarrow> FieldModel list" where
  "extract_fields ocr_text document_type =
     (let field_list = extract_pattern_fields ocr_text;
          field_list = refine_fields_by_type field_list document_type ocr_text
      in if document_type = PROMOTIONAL
           then field_list @ extract_promotional_fields ocr_text
         else if document_type = RECEIPT
           then field_list @ extract_receipt_fields ocr_text
         else if document_type = BILL_STATEMENT
           then field_list @ extract_bill_fields ocr_text
         else field_list)"

section \<open>The checksum in the words of the specification\<close>

text \<open>
  The specification describes the Luhn rule on the reversed digit string: the digit at
  an odd index (1, 3, 5, ...) is doubled, 9 is subtracted from a doubled value above 9,
  the digits at even indices count as they are, and the number is valid iff the sum of
  all contributions is divisible by 10. \<open>luhn_spec\<close> follows these words; it is compared
  with the loop of \<open>luhn_check\<close> below.
\<close>

definition luhn_term :: "nat \<times> char \<Rightarrow> int" where
  "luhn_term = (\<lambda>(i, d).
     if odd i then (if 2 * digit_value d > 9 then 2 * digit_value d - 9
                    else 2 * digit_value d)
     else digit_value d)"

definition luhn_spec :: "string \<Rightarrow> bool" where
  "luhn_spec digits = (sum_list (map luhn_term (enumerate 0 (rev digits))) mod 10 = 0)"

section \<open>Example documents\<close>

definition newline :: string where
  "newline = [CHR 0x0A]"

text \<open>A mailer that also carries a receipt number, a card brand and a billing term.\<close>

definition promo_receipt_bill_text :: string where
  "promo_receipt_bill_text = ''Receipt #1 VISA billing statement free offer when you''"

text \<open>A card number that passes the checksum, and the same number with its last digit changed.\<close>

definition valid_card_text :: string where
  "valid_card_text = ''VISA 4532015112830366 12/27''"

definition invalid_card_text :: string where
  "invalid_card_text = ''VISA 4532015112830367 12/27''"

text \<open>The failing number once more, written in groups of four.\<close>

definition grouped_invalid_card_text :: string where
  "grouped_invalid_card_text = ''VISA 4532 0151 1283 0367 12/27''"

definition rx_bin_text :: string where
  "rx_bin_text = ''RX BIN: 004336''"

definition rx_bin_promo_text :: string where
  "rx_bin_promo_text = ''RX BIN: 004336 free when you''"

definition order_visa_text :: string where
  "order_visa_text = ''Order #5 VISA''"

definition receipt_rx_bin_text :: string where
  "receipt_rx_bin_text = ''Receipt #1 VISA RX BIN''"

definition gift_card_text :: string where
  "gift_card_text = ''STARBUCKS GIFT CARD 6001 2345 6789 0123''"

definition amount_due_text :: string where
  "amount_due_text = ''Amount Due: $0.00''"

definition promo_code_text :: string where
  "promo_code_text =
     ''Get $50 when you open an account by 12/12/2025. Use promo code Offer25.''"

definition cvs_receipt_text :: string where
  "cvs_receipt_text =
     ''CVS Pharmacy'' @ newline @ ''Receipt #456'' @ newline @ ''ADVIL $12.99'' @ newline
     @ ''Total: $12.99'' @ newline @ ''VISA ****1234''"

definition cashier_text :: string where
  "cashier_text = ''cashier''"

definition cashier_order_text :: string where
  "cashier_order_text = ''cashier order #5''"

section \<open>Substrings\<close>

lemma prefix_str_in: "prefix needle text \<Longrightarrow> str_in needle text"
  by (cases "text") auto

lemma str_in_append_left: "str_in needle text \<Longrightarrow> str_in needle (ps @ text)"
  by (induction ps) auto

lemma str_in_iff: "str_in needle text \<longleftrightarrow> (\<exists>ps ss. text = ps @ needle @ ss)"
proof (induction "text")
  case Nil
  then show ?case by auto
next
  case (Cons c cs)
  show ?case
  proof
    assume "str_in needle (c # cs)"
    then consider "prefix needle (c # cs)" | "str_in needle cs" by auto
    then show "\<exists>ps ss. c # cs = ps @ needle @ ss"
    proof cases
      case 1
      then obtain ss where "c # cs = needle @ ss" by (auto simp: prefix_def)
      then have "c # cs = [] @ needle @ ss" by simp
      then show ?thesis by blast
    next
      case 2
      with Cons.IH obtain ps ss where "cs = ps @ needle @ ss" by blast
      then have "c # cs = (c # ps) @ needle @ ss" by simp
      then show ?thesis by blast
    qed
  next
    assume "\<exists>ps ss. c # cs = ps @ needle @ ss"
    then obtain ps ss where eq: "c # cs = ps @ needle @ ss" by blast
    have "str_in needle (needle @ ss)" by (rule prefix_str_in) simp
    then have "str_in needle (ps @ needle @ ss)" by (rule str_in_append_left)
    with eq show "str_in needle (c # cs)" by simp
  qed
qed

lemma str_in_longer:
  assumes "str_in (needle @ extra) text"
  shows "str_in needle text"
proof -
  from assms obtain ps ss where "text = ps @ (needle @ extra) @ ss"
    unfolding str_in_iff by blast
  then have "text = ps @ needle @ (extra @ ss)" by simp
  then show ?thesis unfolding str_in_iff by blast
qed

lemma str_in_map:
  assumes "str_in needle hay"
  shows "str_in (map f needle) (map f hay)"
proof -
  from assms obtain ps ss where "hay = ps @ needle @ ss"
    unfolding str_in_iff by blast
  then have "map f hay = map f ps @ map f needle @ map f ss" by simp
  then show ?thesis unfolding str_in_iff by blast
qed

text \<open>
  What occurs in the recognised text occurs, lower-cased, in the haystack (for a needle
  written in lower case, such as \<open>rx bin\<close> or \<open>cashier\<close>, the needle itself).
\<close>

lemma text_in_haystack:
  assumes "str_in needle ocr_text"
  shows "str_in (lower (lower needle)) (haystack ocr_text field_list)"
proof -
  have "str_in (lower (lower needle)) (lower (lower ocr_text))"
    unfolding lower_def using assms by (intro str_in_map)
  then obtain ps ss where "lower (lower ocr_text) = ps @ lower (lower needle) @ ss"
    unfolding str_in_iff by blast
  then have "haystack ocr_text field_list
             = ps @ lower (lower needle)
               @ (ss @ lower ('' '' @ join '' '' (field_values_of field_list)))"
    by (simp add: haystack_def lower_def Let_def)
  then show ?thesis unfolding str_in_iff by blast
qed

lemma any_in_iff: "any_in needles text \<longleftrightarrow> (\<exists>n \<in> set needles. str_in n text)"
  by (simp add: any_in_def list_ex_iff)

section \<open>The priority order of the classifier\<close>

lemma classify_type:
  "fst (classify ocr_text field_list hint default_type) =
     (let hay = haystack ocr_text field_list;
          ks = field_keys_of field_list;
          vs = field_values_of field_list;
          promo = fst (is_promotional hay)
      in if promo then PROMOTIONAL
         else if fst (is_insurance_card hay ks) then INSURANCE_CARD
         else if fst (is_credit_card hay vs ks) then CREDIT_CARD
         else if fst (is_receipt hay ks promo) then RECEIPT
         else if fst (is_bill_statement hay) then BILL_STATEMENT
         else if fst (is_letter hay promo) then LETTER
         else default_type)"
  by (simp add: classify_def Let_def split_beta)

lemma is_promotional_hit: "fst (is_promotional text) = (2 \<le> promo_signal_count text)"
  by (simp add: is_promotional_def Let_def)

section \<open>Promotional precedence\<close>

text \<open>
  C1. Whenever the lower-cased haystack of a document matches at least two of the five
  promotional signal categories, \<open>classify\<close> returns \<open>PROMOTIONAL\<close>, whatever the
  fields, the hint and the default type are, and whatever the receipt and bill detectors
  would say about the same haystack.
\<close>

theorem promotional_precedence:
  assumes "2 \<le> promo_signal_count (haystack ocr_text field_list)"
  shows "fst (classify ocr_text field_list hint default_type) = PROMOTIONAL"
  using assms by (simp add: classify_type is_promotional_hit Let_def)

text \<open>
  On the example mailer two promotional categories match, the receipt detector (asked
  without the promotional veto) and the bill detector both fire, and the result is
  promotional all the same.
\<close>

theorem promotional_precedence_witness:
  "2 \<le> promo_signal_count (haystack promo_receipt_bill_text None)
   \<and> fst (is_receipt (haystack promo_receipt_bill_text None) [] False)
   \<and> fst (is_bill_statement (haystack promo_receipt_bill_text None))
   \<and> fst (classify promo_receipt_bill_text None None GENERIC) = PROMOTIONAL"
proof -
  have h: "2 \<le> promo_signal_count (haystack promo_receipt_bill_text None)"
    by code_simp
  have r: "fst (is_receipt (haystack promo_receipt_bill_text None) [] False)"
    by code_simp
  have b: "fst (is_bill_statement (haystack promo_receipt_bill_text None))"
    by code_simp
  from h r b promotional_precedence [OF h, of None GENERIC] show ?thesis
    by simp
qed

section \<open>The hint\<close>

text \<open>
  C8. The hint does not influence the classification: for every text, every field list
  and every default type, any two hints (\<open>None\<close> included) give the same triple of
  document type, confidence and signal report.
\<close>

theorem hint_is_inert:
  "classify ocr_text field_list hint1 default_type
   = classify ocr_text field_list hint2 default_type"
  by (simp add: classify_def)

section \<open>Bill statements\<close>

text \<open>
  C6. A text in which a payment-due term occurs, but no billing-specific term, no invoice
  term, no service term and no account-management term, is not a bill statement for the
  detector.
\<close>

theorem payment_due_alone_is_no_bill:
  assumes "any_in payment_due text"
    and "\<not> any_in billing_terms text"
    and "\<not> any_in invoice_terms text"
    and "\<not> any_in service_terms text"
    and "\<not> any_in account_terms text"
  shows "\<not> fst (is_bill_statement text)"
  using assms
  by (simp add: is_bill_statement_def bill_rule_def has_billing_term_def has_invoice_def
      has_service_term_def has_account_term_def Let_def)

theorem payment_due_alone_is_no_bill_witness:
  "any_in payment_due (lower amount_due_text)
   \<and> \<not> any_in billing_terms (lower amount_due_text)
   \<and> \<not> any_in invoice_terms (lower amount_due_text)
   \<and> \<not> any_in service_terms (lower amount_due_text)
   \<and> \<not> any_in account_terms (lower amount_due_text)
   \<and> \<not> fst (is_bill_statement (lower amount_due_text))"
proof -
  have p: "any_in payment_due (lower amount_due_text)" by code_simp
  have b: "\<not> any_in billing_terms (lower amount_due_text)" by code_simp
  have i: "\<not> any_in invoice_terms (lower amount_due_text)" by code_simp
  have s: "\<not> any_in service_terms (lower amount_due_text)" by code_simp
  have a: "\<not> any_in account_terms (lower amount_due_text)" by code_simp
  from p b i s a payment_due_alone_is_no_bill [OF p b i s a] show ?thesis
    by simp
qed

lemma classify_confidence:
  "fst (snd (classify ocr_text field_list hint default_type)) =
     (let hay = haystack ocr_text field_list;
          ks = field_keys_of field_list;
          vs = field_values_of field_list;
          promo = fst (is_promotional hay)
      in if promo
         then calculate_confidence
                (dval_int (dict_get (snd (is_promotional hay)) ''signal_count'' (DInt 0))) 5
         else if fst (is_insurance_card hay ks)
         then (if truthy (dict_get (snd (is_insurance_card hay ks)) ''has_rx_bin'' DNone)
               then 0.95
               else calculate_confidence
                      (dval_int (dict_get (snd (is_insurance_card hay ks)) ''signal_count''
                         (DInt 0))) 4)
         else if fst (is_credit_card hay vs ks)
         then (if truthy (dict_get (snd (is_credit_card hay vs ks)) ''has_issuer_name'' DNone)
               then 0.9 else 0.75)
         else if fst (is_receipt hay ks promo)
         then (let rule = dict_get (snd (is_receipt hay ks promo)) ''rule'' (DStr [])
               in if rule = DStr ''strong_transaction'' then 0.95
                  else if rule = DStr ''merchant_payment'' then 0.85
                  else 0.70)
         else if fst (is_bill_statement hay)
         then (if truthy (dict_get (snd (is_bill_statement hay)) ''has_billing_term'' DNone)
               then 0.9 else 0.75)
         else if fst (is_letter hay promo) then 0.80
         else 0.3)"
  by (simp add: classify_def Let_def split_beta)

lemma insurance_accepts_rx_bin:
  assumes "str_in ''rx bin'' text" and "\<not> any_in anti_patterns text"
  shows "fst (is_insurance_card text ks)"
    and "dict_get (snd (is_insurance_card text ks)) ''has_rx_bin'' DNone = DBool True"
  using assms by (simp_all add: is_insurance_card_def has_rx_bin_def dict_get_def Let_def)

lemma receipt_strong:
  assumes "has_transaction_id text" and "has_payment_method text"
  shows "fst (is_receipt text ks False)"
    and "dict_get (snd (is_receipt text ks False)) ''rule'' (DStr [])
         = DStr ''strong_transaction''"
  using assms by (simp_all add: is_receipt_def dict_get_def)

lemma receipt_medium:
  assumes "\<not> has_transaction_id text"
    and "has_merchant_context text" and "has_payment_method text"
  shows "fst (is_receipt text ks False)"
    and "dict_get (snd (is_receipt text ks False)) ''rule'' (DStr [])
         = DStr ''merchant_payment''"
  using assms by (simp_all add: is_receipt_def dict_get_def)

lemma credit_rejects_non_payment_card:
  assumes "is_non_payment_card text" and "\<not> has_issuer_name text"
  shows "\<not> fst (is_credit_card text vs ks)"
  using assms by (simp add: is_credit_card_def)

section \<open>The rx-bin shortcut\<close>

text \<open>
  C3, as stated, fails: the example below contains \<open>rx bin\<close> and no anti-pattern phrase,
  but it also matches two promotional categories (\<open>free\<close>, \<open>when you\<close>), and the
  promotional branch comes first in the priority order.
\<close>

theorem rx_bin_counterexample:
  "str_in ''rx bin'' (haystack rx_bin_promo_text None)
   \<and> \<not> any_in anti_patterns (haystack rx_bin_promo_text None)
   \<and> fst (classify rx_bin_promo_text None None GENERIC) = PROMOTIONAL
   \<and> fst (snd (classify rx_bin_promo_text None None GENERIC)) = 0.75"
  by code_simp

text \<open>
  C3, amended. For every document whose haystack contains \<open>rx bin\<close>, matches no
  insurance anti-pattern phrase and matches fewer than two promotional signal categories
  (the promotional detector does not fire), \<open>classify\<close> returns \<open>INSURANCE_CARD\<close>
  with confidence exactly 0.95, however many of the four insurance signal categories
  matched.
\<close>

theorem rx_bin_is_insurance_card:
  assumes "str_in ''rx bin'' (haystack ocr_text field_list)"
    and "\<not> any_in anti_patterns (haystack ocr_text field_list)"
    and "promo_signal_count (haystack ocr_text field_list) < 2"
  shows "fst (classify ocr_text field_list hint default_type) = INSURANCE_CARD
         \<and> fst (snd (classify ocr_text field_list hint default_type)) = 0.95"
proof -
  let ?hay = "haystack ocr_text field_list"
  have p: "\<not> fst (is_promotional ?hay)"
    using assms(3) by (simp add: is_promotional_hit)
  note i = insurance_accepts_rx_bin [OF assms(1) assms(2), of "field_keys_of field_list"]
  show ?thesis
    using p i by (simp add: classify_type classify_confidence Let_def)
qed

theorem rx_bin_is_insurance_card_witness:
  "str_in ''rx bin'' (haystack rx_bin_text None)
   \<and> \<not> any_in anti_patterns (haystack rx_bin_text None)
   \<and> promo_signal_count (haystack rx_bin_text None) < 2
   \<and> fst (classify rx_bin_text None None GENERIC) = INSURANCE_CARD
   \<and> fst (snd (classify rx_bin_text None None GENERIC)) = 0.95"
proof -
  have a: "str_in ''rx bin'' (haystack rx_bin_text None)" by code_simp
  have b: "\<not> any_in anti_patterns (haystack rx_bin_text None)" by code_simp
  have c: "promo_signal_count (haystack rx_bin_text None) < 2" by code_simp
  from a b c rx_bin_is_insurance_card [OF a b c, of None GENERIC] show ?thesis
    by simp
qed

section \<open>The strong receipt tier\<close>

text \<open>
  C4, as stated, fails: the example below has a transaction-ID pattern and a card brand
  and matches no promotional category, but it contains \<open>rx bin\<close>, and the insurance-card
  branch comes before the receipt branch in the priority order.
\<close>

theorem strong_receipt_counterexample:
  "has_transaction_id (haystack receipt_rx_bin_text None)
   \<and> has_payment_method (haystack receipt_rx_bin_text None)
   \<and> promo_signal_count (haystack receipt_rx_bin_text None) = 0
   \<and> fst (classify receipt_rx_bin_text None None GENERIC) = INSURANCE_CARD"
  by code_simp

text \<open>
  C4, amended. For every document whose haystack contains a transaction-ID pattern and a
  payment-method signal, matches no promotional signal category, and on which neither
  the insurance-card detector nor the credit-card detector fires, \<open>classify\<close> returns
  \<open>RECEIPT\<close> with confidence at least 0.95.
\<close>

theorem strong_receipt:
  assumes "has_transaction_id (haystack ocr_text field_list)"
    and "has_payment_method (haystack ocr_text field_list)"
    and "promo_signal_count (haystack ocr_text field_list) = 0"
    and "\<not> fst (is_insurance_card (haystack ocr_text field_list) (field_keys_of field_list))"
    and "\<not> fst (is_credit_card (haystack ocr_text field_list)
                 (field_values_of field_list) (field_keys_of field_list))"
  shows "fst (classify ocr_text field_list hint default_type) = RECEIPT
         \<and> fst (snd (classify ocr_text field_list hint default_type)) \<ge> 0.95"
proof -
  let ?hay = "haystack ocr_text field_list"
  have p: "\<not> fst (is_promotional ?hay)"
    using assms(3) by (simp add: is_promotional_hit)
  note r = receipt_strong [OF assms(1) assms(2), of "field_keys_of field_list"]
  show ?thesis
    using p r assms(4) assms(5) by (simp add: classify_type classify_confidence Let_def)
qed

theorem strong_receipt_witness:
  "has_transaction_id (haystack order_visa_text None)
   \<and> has_payment_method (haystack order_visa_text None)
   \<and> promo_signal_count (haystack order_visa_text None) = 0
   \<and> \<not> fst (is_insurance_card (haystack order_visa_text None) (field_keys_of None))
   \<and> \<not> fst (is_credit_card (haystack order_visa_text None)
              (field_values_of None) (field_keys_of None))
   \<and> fst (classify order_visa_text None None GENERIC) = RECEIPT
   \<and> fst (snd (classify order_visa_text None None GENERIC)) \<ge> 0.95"
proof -
  have a: "has_transaction_id (haystack order_visa_text None)" by code_simp
  have b: "has_payment_method (haystack order_visa_text None)" by code_simp
  have c: "promo_signal_count (haystack order_visa_text None) = 0" by code_simp
  have d: "\<not> fst (is_insurance_card (haystack order_visa_text None) (field_keys_of None))"
    by code_simp
  have e: "\<not> fst (is_credit_card (haystack order_visa_text None)
                 (field_values_of None) (field_keys_of None))"
    by code_simp
  from a b c d e strong_receipt [OF a b c d e, of None GENERIC] show ?thesis
    by simp
qed

section \<open>Gift, member and loyalty cards\<close>

text \<open>
  C5. A text that contains a non-payment-card term (\<open>gift card\<close>, \<open>member card\<close>,
  \<open>membership card\<close>, \<open>loyalty card\<close>) and no issuer brand name is rejected by the
  credit-card detector, whatever digit sequences, field values and field keys come with
  it; and a document whose haystack is such a text is never classified as
  \<open>CREDIT_CARD\<close> (the default type being any other type, \<open>GENERIC\<close> unless a
  caller says otherwise).
\<close>

theorem gift_card_is_no_credit_card:
  "(any_in non_payment_card_terms text \<and> \<not> any_in issuer_names text
      \<longrightarrow> \<not> fst (is_credit_card text field_values field_keys))
   \<and> (any_in non_payment_card_terms (haystack ocr_text field_list)
        \<and> \<not> any_in issuer_names (haystack ocr_text field_list)
        \<and> default_type \<noteq> CREDIT_CARD
      \<longrightarrow> fst (classify ocr_text field_list hint default_type) \<noteq> CREDIT_CARD)"
proof -
  have "\<not> fst (is_credit_card t vs ks)"
    if "any_in non_payment_card_terms t" and "\<not> any_in issuer_names t" for t vs ks
    using that
    by (simp add: credit_rejects_non_payment_card is_non_payment_card_def has_issuer_name_def)
  then show ?thesis
    by (simp add: classify_type Let_def)
qed

theorem gift_card_is_no_credit_card_witness:
  "any_in non_payment_card_terms (haystack gift_card_text None)
   \<and> \<not> any_in issuer_names (haystack gift_card_text None)
   \<and> GENERIC \<noteq> CREDIT_CARD
   \<and> \<not> fst (is_credit_card (haystack gift_card_text None) [] [])
   \<and> fst (classify gift_card_text None None GENERIC) \<noteq> CREDIT_CARD"
proof -
  have a: "any_in non_payment_card_terms (haystack gift_card_text None)" by code_simp
  have b: "\<not> any_in issuer_names (haystack gift_card_text None)" by code_simp
  from a b
    gift_card_is_no_credit_card [of "haystack gift_card_text None" "[]" "[]"
      gift_card_text None GENERIC None]
  show ?thesis by simp
qed

section \<open>The word \<open>cashier\<close>\<close>

lemma cashier_signals:
  assumes "str_in ''cashier'' text"
  shows "has_merchant_context text" and "has_cash_payment text" and "has_payment_method text"
proof -
  show "has_merchant_context text"
    using assms by (simp add: has_merchant_context_def merchant_indicators_def any_in_def)
  have "str_in (''cash'' @ ''ier'') text" using assms by simp
  then have "str_in ''cash'' text" by (rule str_in_longer)
  then show "has_cash_payment text"
    by (simp add: has_cash_payment_def cash_indicators_def any_in_def)
  then show "has_payment_method text"
    by (simp add: has_payment_method_def)
qed

text \<open>
  C10, as stated, fails where it names the rule: the example below contains
  \<open>cashier\<close> and is not promotional, but it also contains \<open>order #\<close>, so the strong
  tier, tried first, answers with rule \<open>strong_transaction\<close> and \<open>classify\<close> gives
  confidence 0.95 instead of 0.85.
\<close>

theorem cashier_counterexample:
  "str_in ''cashier'' (haystack cashier_order_text None)
   \<and> \<not> fst (is_promotional (haystack cashier_order_text None))
   \<and> dict_get (snd (is_receipt (haystack cashier_order_text None) [] False)) ''rule''
        (DStr []) = DStr ''strong_transaction''
   \<and> fst (classify cashier_order_text None None GENERIC) = RECEIPT
   \<and> fst (snd (classify cashier_order_text None None GENERIC)) = 0.95"
  by code_simp

text \<open>
  C10, amended. Keyword detection is substring-based, so a text containing \<open>cashier\<close>
  matches the merchant-context list (\<open>cashier\<close>) and the cash-payment list (\<open>cash\<close>)
  on its own, and \<open>is_receipt(text, keys, false)\<close> returns true for every such text: with
  rule \<open>merchant_payment\<close> when the text contains no transaction-ID pattern, with rule
  \<open>strong_transaction\<close> when it contains one. For a document whose haystack contains
  \<open>cashier\<close> and no transaction-ID pattern, and on which the promotional, insurance-card
  and credit-card detectors do not fire, \<open>classify\<close> returns \<open>RECEIPT\<close> with
  confidence 0.85.
\<close>

theorem cashier_is_receipt:
  "(str_in ''cashier'' text \<longrightarrow>
      any_in merchant_indicators text \<and> any_in cash_indicators text
      \<and> fst (is_receipt text field_keys False)
      \<and> dict_get (snd (is_receipt text field_keys False)) ''rule'' (DStr [])
          = (if any_in transaction_patterns text then DStr ''strong_transaction''
             else DStr ''merchant_payment''))
   \<and> (str_in ''cashier'' (haystack ocr_text field_list)
        \<and> \<not> any_in transaction_patterns (haystack ocr_text field_list)
        \<and> \<not> fst (is_promotional (haystack ocr_text field_list))
        \<and> \<not> fst (is_insurance_card (haystack ocr_text field_list)
                   (field_keys_of field_list))
        \<and> \<not> fst (is_credit_card (haystack ocr_text field_list)
                   (field_values_of field_list) (field_keys_of field_list))
      \<longrightarrow> fst (classify ocr_text field_list hint default_type) = RECEIPT
          \<and> fst (snd (classify ocr_text field_list hint default_type)) = 0.85)"
proof (intro conjI impI)
  assume c: "str_in ''cashier'' text"
  note s = cashier_signals [OF c]
  show "any_in merchant_indicators text"
    using s(1) by (simp add: has_merchant_context_def)
  show "any_in cash_indicators text"
    using s(2) by (simp add: has_cash_payment_def)
  show "fst (is_receipt text field_keys False)"
    using s(1) s(3) by (simp add: is_receipt_def)
  show "dict_get (snd (is_receipt text field_keys False)) ''rule'' (DStr [])
          = (if any_in transaction_patterns text then DStr ''strong_transaction''
             else DStr ''merchant_payment'')"
    using s(1) s(3) by (simp add: is_receipt_def dict_get_def has_transaction_id_def)
next
  let ?hay = "haystack ocr_text field_list"
  assume a: "str_in ''cashier'' ?hay
        \<and> \<not> any_in transaction_patterns ?hay
        \<and> \<not> fst (is_promotional ?hay)
        \<and> \<not> fst (is_insurance_card ?hay (field_keys_of field_list))
        \<and> \<not> fst (is_credit_card ?hay (field_values_of field_list) (field_keys_of field_list))"
  then have c: "str_in ''cashier'' ?hay" and t: "\<not> has_transaction_id ?hay"
    by (simp_all add: has_transaction_id_def)
  note s = cashier_signals [OF c]
  note r = receipt_medium [OF t s(1) s(3), of "field_keys_of field_list"]
  show "fst (classify ocr_text field_list hint default_type) = RECEIPT"
    using a r by (simp add: classify_type Let_def)
  show "fst (snd (classify ocr_text field_list hint default_type)) = 0.85"
    using a r by (simp add: classify_confidence Let_def)
qed

theorem cashier_is_receipt_witness:
  "str_in ''cashier'' (haystack cashier_text None)
   \<and> \<not> any_in transaction_patterns (haystack cashier_text None)
   \<and> \<not> fst (is_promotional (haystack cashier_text None))
   \<and> \<not> fst (is_insurance_card (haystack cashier_text None) (field_keys_of None))
   \<and> \<not> fst (is_credit_card (haystack cashier_text None)
              (field_values_of None) (field_keys_of None))
   \<and> fst (is_receipt (haystack cashier_text None) [] False)
   \<and> dict_get (snd (is_receipt (haystack cashier_text None) [] False)) ''rule'' (DStr [])
       = DStr ''merchant_payment''
   \<and> fst (classify cashier_text None None GENERIC) = RECEIPT
   \<and> fst (snd (classify cashier_text None None GENERIC)) = 0.85"
proof -
  have a: "str_in ''cashier'' (haystack cashier_text None)" by code_simp
  have b: "\<not> any_in transaction_patterns (haystack cashier_text None)" by code_simp
  have c: "\<not> fst (is_promotional (haystack cashier_text None))" by code_simp
  have d: "\<not> fst (is_insurance_card (haystack cashier_text None) (field_keys_of None))"
    by code_simp
  have e: "\<not> fst (is_credit_card (haystack cashier_text None)
                 (field_values_of None) (field_keys_of None))"
    by code_simp
  from a b c d e
    cashier_is_receipt [of "haystack cashier_text None" "[]" cashier_text None None GENERIC]
  show ?thesis by simp
qed

section \<open>The Luhn checksum\<close>

lemma luhn_step_term: "luhn_step x acc = acc + luhn_term x"
  by (cases x) (simp add: luhn_step_def luhn_term_def Let_def odd_iff_mod_2_eq_one)

lemma fold_luhn_step: "fold luhn_step xs acc = acc + sum_list (map luhn_term xs)"
  by (induction xs arbitrary: acc) (simp_all add: luhn_step_term)

lemma luhn_check_iff:
  "luhn_check card_number \<longleftrightarrow>
     13 \<le> length (filter is_digit card_number)
     \<and> length (filter is_digit card_number) \<le> 19
     \<and> luhn_spec (filter is_digit card_number)"
  by (auto simp add: luhn_check_def luhn_spec_def fold_luhn_step Let_def)

lemma credit_hit_needs_valid_pan:
  "fst (is_credit_card text vs ks) \<Longrightarrow> has_valid_pan text"
  by (simp add: is_credit_card_def Let_def split: if_splits)

text \<open>
  C2. The credit-card detector returns a hit only if one of the extracted candidates has
  13 to 19 digits and passes the Luhn checksum as the specification words it. A document
  none of whose candidates passes the checksum on its digits (the separators of a grouped
  number left out) is not classified as \<open>CREDIT_CARD\<close>, whatever else the haystack
  contains (the default type being any other type, \<open>GENERIC\<close> unless a caller says
  otherwise); in particular a document whose only candidate is a 16-digit sequence,
  grouped or not, that fails the checksum.
\<close>

theorem credit_card_needs_luhn:
  "(fst (is_credit_card text field_values field_keys) \<longrightarrow>
      (\<exists>n \<in> set (extract_card_numbers text).
         13 \<le> length (filter is_digit n) \<and> length (filter is_digit n) \<le> 19
         \<and> luhn_spec (filter is_digit n)))
   \<and> ((\<forall>n \<in> set (extract_card_numbers (haystack ocr_text field_list)).
           \<not> luhn_spec (filter is_digit n))
        \<and> default_type \<noteq> CREDIT_CARD
      \<longrightarrow> fst (classify ocr_text field_list hint default_type) \<noteq> CREDIT_CARD)"
proof (intro conjI impI)
  assume "fst (is_credit_card text field_values field_keys)"
  then have "has_valid_pan text" by (rule credit_hit_needs_valid_pan)
  then obtain n where "n \<in> set (extract_card_numbers text)" and "luhn_check n"
    by (auto simp add: has_valid_pan_def list_ex_iff)
  then show "\<exists>n \<in> set (extract_card_numbers text).
         13 \<le> length (filter is_digit n) \<and> length (filter is_digit n) \<le> 19
         \<and> luhn_spec (filter is_digit n)"
    by (auto simp add: luhn_check_iff)
next
  let ?hay = "haystack ocr_text field_list"
  assume a: "(\<forall>n \<in> set (extract_card_numbers ?hay). \<not> luhn_spec (filter is_digit n))
        \<and> default_type \<noteq> CREDIT_CARD"
  then have "\<forall>n \<in> set (extract_card_numbers ?hay). \<not> luhn_check n"
    by (simp add: luhn_check_iff)
  then have "\<not> has_valid_pan ?hay"
    by (simp add: has_valid_pan_def list_ex_iff)
  then have "\<not> fst (is_credit_card ?hay (field_values_of field_list) (field_keys_of field_list))"
    using credit_hit_needs_valid_pan by blast
  with a show "fst (classify ocr_text field_list hint default_type) \<noteq> CREDIT_CARD"
    by (simp add: classify_type Let_def)
qed

text \<open>
  On the first example the detector fires and a candidate with a valid checksum is there.
  The second and the third example have the brand name \<open>visa\<close>, an expiry \<open>12/27\<close>
  and one candidate number of 16 digits failing the checksum, written without and with
  separators, and neither is a credit card.
\<close>

theorem credit_card_needs_luhn_witness:
  "fst (is_credit_card (haystack valid_card_text None) [] [])
   \<and> list_ex (\<lambda>n. 13 \<le> length (filter is_digit n) \<and> length (filter is_digit n) \<le> 19
                   \<and> luhn_spec (filter is_digit n))
        (extract_card_numbers (haystack valid_card_text None))
   \<and> extract_card_numbers (haystack invalid_card_text None)
       = [''4532015112830367'', ''4532015112830367'']
   \<and> extract_card_numbers (haystack grouped_invalid_card_text None)
       = [''4532 0151 1283 0367'']
   \<and> filter is_digit ''4532 0151 1283 0367'' = ''4532015112830367''
   \<and> length ''4532015112830367'' = 16
   \<and> \<not> luhn_spec ''4532015112830367''
   \<and> GENERIC \<noteq> CREDIT_CARD
   \<and> has_issuer_name (haystack invalid_card_text None)
   \<and> has_expiry (haystack invalid_card_text None)
   \<and> fst (classify invalid_card_text None None GENERIC) \<noteq> CREDIT_CARD
   \<and> has_issuer_name (haystack grouped_invalid_card_text None)
   \<and> has_expiry (haystack grouped_invalid_card_text None)
   \<and> fst (classify grouped_invalid_card_text None None GENERIC) \<noteq> CREDIT_CARD"
proof -
  have a: "fst (is_credit_card (haystack valid_card_text None) [] [])" by code_simp
  have b: "extract_card_numbers (haystack invalid_card_text None)
           = [''4532015112830367'', ''4532015112830367'']"
    by code_simp
  have c: "extract_card_numbers (haystack grouped_invalid_card_text None)
           = [''4532 0151 1283 0367'']"
    by code_simp
  have d: "filter is_digit ''4532 0151 1283 0367'' = ''4532015112830367''" by code_simp
  have d': "filter is_digit ''4532015112830367'' = ''4532015112830367''" by code_simp
  have e: "\<not> luhn_spec ''4532015112830367''" by code_simp
  have f: "has_issuer_name (haystack invalid_card_text None)" by code_simp
  have g: "has_expiry (haystack invalid_card_text None)" by code_simp
  have h: "has_issuer_name (haystack grouped_invalid_card_text None)" by code_simp
  have i: "has_expiry (haystack grouped_invalid_card_text None)" by code_simp
  have v: "list_ex (\<lambda>n. 13 \<le> length (filter is_digit n) \<and> length (filter is_digit n) \<le> 19
                   \<and> luhn_spec (filter is_digit n))
        (extract_card_numbers (haystack valid_card_text None))"
    using a credit_card_needs_luhn [of "haystack valid_card_text None" "[]" "[]"]
    by (simp add: list_ex_iff)
  have ne: "GENERIC \<noteq> CREDIT_CARD" by simp
  have hu: "\<forall>n \<in> set (extract_card_numbers (haystack invalid_card_text None)).
              \<not> luhn_spec (filter is_digit n)"
  proof
    fix n assume "n \<in> set (extract_card_numbers (haystack invalid_card_text None))"
    then have n: "n = ''4532015112830367''" unfolding b by simp
    show "\<not> luhn_spec (filter is_digit n)" unfolding n d' by (rule e)
  qed
  have hw: "\<forall>n \<in> set (extract_card_numbers (haystack grouped_invalid_card_text None)).
              \<not> luhn_spec (filter is_digit n)"
  proof
    fix n assume "n \<in> set (extract_card_numbers (haystack grouped_invalid_card_text None))"
    then have n: "n = ''4532 0151 1283 0367''" unfolding c by simp
    show "\<not> luhn_spec (filter is_digit n)" unfolding n d by (rule e)
  qed
  have u: "fst (classify invalid_card_text None None GENERIC) \<noteq> CREDIT_CARD"
    using credit_card_needs_luhn [of "[]" "[]" "[]" invalid_card_text None GENERIC None]
      hu ne
    by blast
  have w: "fst (classify grouped_invalid_card_text None None GENERIC) \<noteq> CREDIT_CARD"
    using credit_card_needs_luhn
      [of "[]" "[]" "[]" grouped_invalid_card_text None GENERIC None] hw ne
    by blast
  from a v b c d e f g h i u w show ?thesis by (simp only: simp_thms list.size) simp
qed

section \<open>Extraction for promotional documents\<close>

text \<open>
  What the refinement stage does to one field of a promotional document: an \<open>amount\<close>
  becomes an \<open>offer_amount\<close> at nine tenths of its confidence, with the value and the
  source it had; any other field is kept as it is.
\<close>

lemma fold_refine_step_promotional:
  "fold (refine_step PROMOTIONAL) fs refined =
     refined @ map (\<lambda>f. if key f = ''amount''
                         then \<lparr>key = ''offer_amount'', fvalue = fvalue f,
                               confidence = confidence f * 0.9, source = source f\<rparr>
                         else f) fs"
  by (induction fs arbitrary: refined) (simp_all add: refine_step_def)

lemma first_search_first_match:
  assumes "i < length ps"
    and "re_search (ps ! i) text = Some m"
    and "\<forall>j<i. re_search (ps ! j) text = None"
  shows "first_search ps text = Some m"
  using assms
proof (induction ps arbitrary: i)
  case Nil
  then show ?case by simp
next
  case (Cons p ps)
  show ?case
  proof (cases i)
    case 0
    with Cons.prems show ?thesis by simp
  next
    case (Suc k)
    from Cons.prems(3) Suc have p: "re_search p text = None" by auto
    have k: "k < length ps" using Cons.prems(1) Suc by simp
    have m: "re_search (ps ! k) text = Some m" using Cons.prems(2) Suc by simp
    have n: "\<forall>j<k. re_search (ps ! j) text = None"
    proof (intro allI impI)
      fix j assume "j < k"
      then have "Suc j < i" using Suc by simp
      with Cons.prems(3) have "re_search ((p # ps) ! Suc j) text = None" by blast
      then show "re_search (ps ! j) text = None" by simp
    qed
    from Cons.IH [OF k m n] p show ?thesis by simp
  qed
qed

text \<open>
  C7. For document type \<open>PROMOTIONAL\<close> the output of \<open>extract_fields\<close> starts with
  the Stage-1 fields in their order, each field with key \<open>amount\<close> renamed to
  \<open>offer_amount\<close> with its confidence multiplied by 0.9 and its value and source
  unchanged, every other field as it was. When a pattern of the ordered promo-code list
  matches the text and no earlier pattern of the list does, a \<open>promo_code\<close> field with
  confidence 0.95 and source \<open>pattern\<close>, holding group 1 of that match, comes next.
\<close>

theorem promotional_extraction:
  "extract_fields text PROMOTIONAL =
     map (\<lambda>f. if key f = ''amount''
               then \<lparr>key = ''offer_amount'', fvalue = fvalue f,
                     confidence = confidence f * 0.9, source = source f\<rparr>
               else f) (extract_pattern_fields text)
     @ extract_promotional_fields text
   \<and> (i < length promo_patterns
        \<and> re_search (promo_patterns ! i) text = Some m
        \<and> (\<forall>j<i. re_search (promo_patterns ! j) text = None)
      \<longrightarrow> (\<exists>rest. extract_promotional_fields text =
             \<lparr>key = ''promo_code'', fvalue = group m 1, confidence = 0.95,
              source = ''pattern''\<rparr> # rest))"
proof (intro conjI impI)
  show "extract_fields text PROMOTIONAL =
     map (\<lambda>f. if key f = ''amount''
               then \<lparr>key = ''offer_amount'', fvalue = fvalue f,
                     confidence = confidence f * 0.9, source = source f\<rparr>
               else f) (extract_pattern_fields text)
     @ extract_promotional_fields text"
    by (simp add: extract_fields_def refine_fields_by_type_def fold_refine_step_promotional
        Let_def)
next
  assume a: "i < length promo_patterns
        \<and> re_search (promo_patterns ! i) text = Some m
        \<and> (\<forall>j<i. re_search (promo_patterns ! j) text = None)"
  then have "first_search promo_patterns text = Some m"
    using first_search_first_match [of i promo_patterns "text" m] by blast
  then show "\<exists>rest. extract_promotional_fields text =
             \<lparr>key = ''promo_code'', fvalue = group m 1, confidence = 0.95,
              source = ''pattern''\<rparr> # rest"
    by (simp add: extract_promotional_fields_def pattern_field_def)
qed

lemma promo_code_text_stage1:
  "extract_pattern_fields promo_code_text =
     [\<lparr>key = ''amount'', fvalue = ''$50'', confidence = 0.85, source = ''pattern''\<rparr>,
      \<lparr>key = ''date'', fvalue = ''12/12/2025'', confidence = 0.90, source = ''pattern''\<rparr>]"
  by code_simp

lemma promo_code_text_match:
  "re_search (promo_patterns ! 0) promo_code_text
   = Some \<lparr>whole = ''promo code Offer25'', grps = [(1, ''Offer25'')]\<rparr>"
  by code_simp

text \<open>
  On the example of the specification the first pattern matches, and the output holds
  the relabelled amount and the promo code \<open>Offer25\<close>.
\<close>

theorem promotional_extraction_witness:
  "0 < length promo_patterns
   \<and> re_search (promo_patterns ! 0) promo_code_text
       = Some \<lparr>whole = ''promo code Offer25'', grps = [(1, ''Offer25'')]\<rparr>
   \<and> \<lparr>key = ''offer_amount'', fvalue = ''$50'', confidence = 0.765, source = ''pattern''\<rparr>
       \<in> set (extract_fields promo_code_text PROMOTIONAL)
   \<and> \<lparr>key = ''promo_code'', fvalue = ''Offer25'', confidence = 0.95, source = ''pattern''\<rparr>
       \<in> set (extract_fields promo_code_text PROMOTIONAL)"
proof -
  have l: "0 < length promo_patterns" by (simp add: promo_patterns_def)
  note t = promotional_extraction [of promo_code_text 0
      "\<lparr>whole = ''promo code Offer25'', grps = [(1, ''Offer25'')]\<rparr>"]
  from t l promo_code_text_match obtain rest where
    r: "extract_promotional_fields promo_code_text =
          \<lparr>key = ''promo_code'', fvalue = ''Offer25'', confidence = 0.95,
           source = ''pattern''\<rparr> # rest"
    by (auto simp add: group_def)
  from t have e: "extract_fields promo_code_text PROMOTIONAL =
     map (\<lambda>f. if key f = ''amount''
               then \<lparr>key = ''offer_amount'', fvalue = fvalue f,
                     confidence = confidence f * 0.9, source = source f\<rparr>
               else f) (extract_pattern_fields promo_code_text)
     @ extract_promotional_fields promo_code_text"
    by blast
  show ?thesis
    using l promo_code_text_match by (simp add: e r promo_code_text_stage1)
qed

section \<open>The CVS receipt, end to end\<close>

lemma cvs_receipt_classified:
  "classify cvs_receipt_text None None GENERIC =
     (RECEIPT, 0.95,
      \<lparr>promotional = False, receipt = True, bill = False, insurance_card = False,
       credit_card = False, letter = False,
       details =
         [(''promotional'',
           [(''signal_count'', DInt 0), (''has_incentive_verb'', DBool False),
            (''has_conditional'', DBool False), (''has_promo_term'', DBool False),
            (''has_urgency'', DBool False), (''has_cta'', DBool False)]),
          (''receipt'',
           [(''rule'', DStr ''strong_transaction''), (''has_transaction_id'', DBool True),
            (''has_payment_method'', DBool True)]),
          (''insurance_card'',
           [(''signal_count'', DInt 0), (''has_card_indicator'', DBool False),
            (''has_insurance_term'', DBool False), (''has_network_term'', DBool False),
            (''has_known_insurer'', DBool False), (''has_rx_bin'', DBool False)]),
          (''credit_card'',
           [(''has_valid_pan'', DBool False), (''has_issuer_name'', DBool True),
            (''has_expiry'', DBool False), (''has_card_field'', DBool False),
            (''has_card_keyword'', DBool False), (''is_non_payment_card'', DBool False)]),
          (''bill'',
           [(''has_billing_term'', DBool False), (''has_payment_due'', DBool False),
            (''has_account_term'', DBool False), (''has_service_term'', DBool False),
            (''has_invoice'', DBool False), (''matched_rule'', DNone)]),
          (''letter'',
           [(''has_salutation'', DBool False), (''has_closing'', DBool False)])]\<rparr>)"
  by code_simp

lemma cvs_receipt_extracted:
  "extract_fields cvs_receipt_text RECEIPT =
     [\<lparr>key = ''amount'', fvalue = ''$12.99'', confidence = 0.85, source = ''pattern''\<rparr>,
      \<lparr>key = ''amount'', fvalue = ''$12.99'', confidence = 0.85, source = ''pattern''\<rparr>,
      \<lparr>key = ''transaction_id'', fvalue = ''456'', confidence = 0.95,
       source = ''pattern''\<rparr>,
      \<lparr>key = ''total_amount'', fvalue = ''$12.99'', confidence = 0.95,
       source = ''pattern''\<rparr>]"
  by code_simp

lemma classify_any_hint:
  "classify ocr_text field_list hint default_type
   = classify ocr_text field_list None default_type"
  by (simp add: classify_def)

text \<open>
  C9. For the text \<open>CVS Pharmacy\<close> / \<open>Receipt #456\<close> / \<open>ADVIL $12.99\<close> /
  \<open>Total: $12.99\<close> / \<open>VISA ****1234\<close> (five lines), with no fields and any hint,
  \<open>classify\<close> returns \<open>RECEIPT\<close> with a confidence of at least 0.85 and a signal report
  in which \<open>receipt\<close> is true and \<open>promotional\<close> is false; and \<open>extract_fields\<close> on the
  same text with type \<open>RECEIPT\<close> returns a field \<open>transaction_id\<close> with value
  \<open>456\<close> and a field \<open>total_amount\<close> with value \<open>$12.99\<close>.
\<close>

theorem cvs_receipt_end_to_end:
  "fst (classify cvs_receipt_text None hint GENERIC) = RECEIPT
   \<and> fst (snd (classify cvs_receipt_text None hint GENERIC)) \<ge> 0.85
   \<and> receipt (snd (snd (classify cvs_receipt_text None hint GENERIC)))
   \<and> \<not> promotional (snd (snd (classify cvs_receipt_text None hint GENERIC)))
   \<and> \<lparr>key = ''transaction_id'', fvalue = ''456'', confidence = 0.95, source = ''pattern''\<rparr>
       \<in> set (extract_fields cvs_receipt_text RECEIPT)
   \<and> \<lparr>key = ''total_amount'', fvalue = ''$12.99'', confidence = 0.95, source = ''pattern''\<rparr>
       \<in> set (extract_fields cvs_receipt_text RECEIPT)"
  by (simp add: classify_any_hint [of _ _ hint] cvs_receipt_classified cvs_receipt_extracted)

end
